theory Spec2Isabelle
  imports Main "HOL-Library.Word"
begin

section \<open>Go strings, runes and white space\<close>

text \<open>
  A Go \<^verbatim>\<open>string\<close> is a sequence of bytes; it is modelled as \<^typ>\<open>string\<close>, a list of
  8-bit characters. A \<^verbatim>\<open>rune\<close> is a Unicode code point, modelled as a natural number.
  \<^verbatim>\<open>for _, r := range s\<close> decodes \<open>s\<close> as UTF-8 from byte index 0: each
  iteration yields the code point that starts at the current index and advances by its
  width; an invalid sequence yields \<open>0xFFFD\<close> and advances by one byte.
\<close>

type_synonym rune = nat

definition RuneError :: rune where
  "RuneError = 0xFFFD"

text \<open>
  \<^verbatim>\<open>utf8.DecodeRuneInString\<close>: the code point at the head of \<open>s\<close> and its width in bytes.
  The lead byte fixes the width and the range accepted for the second byte
  (\<open>0xE0\<close>, \<open>0xED\<close>, \<open>0xF0\<close> and \<open>0xF4\<close> narrow it, which excludes overlong forms,
  surrogates and values above \<open>0x10FFFF\<close>); the other continuation bytes lie in
  \<open>0x80..0xBF\<close>. Masking with \<open>0x1F\<close>, \<open>0x0F\<close>, \<open>0x07\<close>, \<open>0x3F\<close> is written
  \<open>mod\<close>, the shifts as multiplications.
\<close>

fun DecodeRuneInString :: "string \<Rightarrow> rune \<times> nat" where
  "DecodeRuneInString [] = (RuneError, 0)"
| "DecodeRuneInString (c0 # cs) =
     (let s0 = (of_char c0 :: nat) in
      if s0 < 0x80 then (s0, 1)
      else if s0 < 0xC2 \<or> 0xF4 < s0 then (RuneError, 1)
      else
        let sz = (if s0 < 0xE0 then 2 else if s0 < 0xF0 then 3 else 4 :: nat);
            lo = (if s0 = 0xE0 then 0xA0 else if s0 = 0xF0 then 0x90 else 0x80 :: nat);
            hi = (if s0 = 0xED then 0x9F else if s0 = 0xF4 then 0x8F else 0xBF :: nat)
        in
          if length (c0 # cs) < sz then (RuneError, 1)
          else
            let b1 = (of_char (cs ! 0) :: nat) in
            if b1 < lo \<or> hi < b1 then (RuneError, 1)
            else if sz \<le> 2 then ((s0 mod 32) * 64 + b1 mod 64, 2)
            else
              let b2 = (of_char (cs ! 1) :: nat) in
              if b2 < 0x80 \<or> 0xBF < b2 then (RuneError, 1)
              else if sz \<le> 3 then ((s0 mod 16) * 4096 + (b1 mod 64) * 64 + b2 mod 64, 3)
              else
                let b3 = (of_char (cs ! 2) :: nat) in
                if b3 < 0x80 \<or> 0xBF < b3 then (RuneError, 1)
                else ((s0 mod 8) * 262144 + (b1 mod 64) * 4096 + (b2 mod 64) * 64
                        + b3 mod 64, 4))"

lemma DecodeRuneInString_width: "s \<noteq> [] \<Longrightarrow> 0 < snd (DecodeRuneInString s)"
  by (cases s) (simp_all add: Let_def)

text \<open>
  The pieces a \<^verbatim>\<open>range\<close> loop walks through: each code point with the bytes it was
  decoded from, in order.
\<close>

function rune_chunks :: "string \<Rightarrow> (rune \<times> string) list" where
  "rune_chunks s =
     (if s = [] then []
      else (fst (DecodeRuneInString s), take (snd (DecodeRuneInString s)) s)
             # rune_chunks (drop (snd (DecodeRuneInString s)) s))"
  by pat_completeness auto
termination
  by (relation "measure length") (simp_all add: DecodeRuneInString_width)

declare rune_chunks.simps [simp del]

definition runes :: "string \<Rightarrow> rune list" where
  "runes s = map fst (rune_chunks s)"

text \<open>
  \<^verbatim>\<open>unicode.IsSpace\<close> of Go's standard library: in Latin-1 the characters
  \<^verbatim>\<open>'\t', '\n', '\v', '\f', '\r', ' '\<close>, U+0085 (NEL) and U+00A0 (NBSP); above Latin-1
  the code points of the Unicode White\_Space property.
\<close>

definition MaxLatin1 :: rune where
  "MaxLatin1 = 0xFF"

definition White_Space :: "(rune \<times> rune) list" where
  "White_Space =
     [(0x0009, 0x000D), (0x0020, 0x0020), (0x0085, 0x0085), (0x00A0, 0x00A0),
      (0x1680, 0x1680), (0x2000, 0x200A), (0x2028, 0x2029), (0x202F, 0x202F),
      (0x205F, 0x205F), (0x3000, 0x3000)]"

definition IsSpace :: "rune \<Rightarrow> bool" where
  "IsSpace r =
     (if r \<le> MaxLatin1 then r \<in> set [0x09, 0x0A, 0x0B, 0x0C, 0x0D, 0x20, 0x85, 0xA0]
      else list_ex (\<lambda>(lo, hi). lo \<le> r \<and> r \<le> hi) White_Space)"

section \<open>The prompt handler: \<^verbatim>\<open>showPassword\<close>\<close>

subsection \<open>Prompt normalisation\<close>

text \<open>
  \<^verbatim>\<open>adjustPrompt\<close> (main.go, lines 238 to 246): the loop returns \<open>s\<close> at the first
  rune that is not white space; when the loop ends without returning, the result is the
  fallback label.
\<close>

fun adjustPrompt_loop :: "rune list \<Rightarrow> string \<Rightarrow> string" where
  "adjustPrompt_loop [] s = ''ssh-askpass: ''"
| "adjustPrompt_loop (r # rs) s = (if \<not> IsSpace r then s else adjustPrompt_loop rs s)"

definition adjustPrompt :: "string \<Rightarrow> string" where
  "adjustPrompt s = adjustPrompt_loop (runes s) s"

subsection \<open>Messages and channels\<close>

text \<open>
  A \<^verbatim>\<open>[]byte\<close> value is \<^verbatim>\<open>nil\<close> (\<open>None\<close>) or a slice of bytes. A channel is
  named by a reference. \<^verbatim>\<open>common.TogglePasswordMsg\<close> has the two fields the code
  sets; its zero value \<^verbatim>\<open>TogglePasswordMsg{}\<close> has the empty prompt and the
  \<^verbatim>\<open>nil\<close> channel.
\<close>

type_synonym byte_slice = "8 word list option"

type_synonym chan = nat

record TogglePasswordMsg =
  Prompt :: string
  Password :: "chan option"

definition show_prompt :: "string \<Rightarrow> chan \<Rightarrow> TogglePasswordMsg" where
  "show_prompt prompt ch = \<lparr>Prompt = adjustPrompt prompt, Password = Some ch\<rparr>"

definition hide_prompt :: TogglePasswordMsg where
  "hide_prompt = \<lparr>Prompt = [], Password = None\<rparr>"

subsection \<open>One invocation of the handler, step by step\<close>

text \<open>
  The handler runs on the relay server's goroutine while the UI loop and the owner of
  \<open>done\<close> run on theirs, so one invocation is a transition system over
  \<^item> \<open>pc\<close>: where the handler stands (before \<^verbatim>\<open>make\<close> and the first \<^verbatim>\<open>send\<close>, at
    the \<^verbatim>\<open>select\<close>, or returned with its result);
  \<^item> \<open>done_fired\<close>: whether a receive from \<open>done\<close> can proceed;
  \<^item> \<open>password_buf\<close>: the buffer of the channel \<open>password\<close>, of capacity 1;
  \<^item> \<open>sent\<close>: the messages passed to \<^verbatim>\<open>send\<close>, in order.
\<close>

datatype pc = AtEntry | AtSelect | Returned byte_slice

record bridge =
  pc :: pc
  done_fired :: bool
  password_buf :: "byte_slice list"
  sent :: "TogglePasswordMsg list"

definition init_bridge :: bridge where
  "init_bridge = \<lparr>pc = AtEntry, done_fired = False, password_buf = [], sent = []\<rparr>"

definition password_cap :: nat where
  "password_cap = 1"

text \<open>
  The steps. \<open>Enter\<close> is lines 248 to 252: the channel is made and the show-prompt
  message sent. \<open>SelectDone\<close> and \<open>SelectPassword\<close> are the two cases of the
  \<^verbatim>\<open>select\<close> (lines 254 to 260); a case can be chosen only when its receive can
  proceed, and when both can, Go chooses one of them by a pseudo-random selection, so
  either may be taken. The handler never reads \<open>name\<close>. \<open>FireDone\<close> is the owner of
  \<open>done\<close> closing it. \<open>Deliver v\<close> is a send of \<open>v\<close> on \<open>password\<close> by whoever received
  the show-prompt message: it proceeds while the buffer has room and blocks otherwise.
  A step that cannot proceed is \<open>None\<close>.
\<close>

datatype action = Enter | SelectDone | SelectPassword | FireDone | Deliver byte_slice

fun step :: "string \<Rightarrow> string \<Rightarrow> chan \<Rightarrow> action \<Rightarrow> bridge \<Rightarrow> bridge option" where
  "step name prompt ch Enter w =
     (if pc w = AtEntry
      then Some (w\<lparr>pc := AtSelect, password_buf := [],
                   sent := sent w @ [show_prompt prompt ch]\<rparr>)
      else None)"
| "step name prompt ch SelectDone w =
     (if pc w = AtSelect \<and> done_fired w
      then Some (w\<lparr>pc := Returned None, sent := sent w @ [hide_prompt]\<rparr>)
      else None)"
| "step name prompt ch SelectPassword w =
     (if pc w = AtSelect
      then case password_buf w of
             [] \<Rightarrow> None
           | pw # rest \<Rightarrow> Some (w\<lparr>pc := Returned pw, password_buf := rest\<rparr>)
      else None)"
| "step name prompt ch FireDone w =
     (if done_fired w then None else Some (w\<lparr>done_fired := True\<rparr>))"
| "step name prompt ch (Deliver v) w =
     (if pc w \<noteq> AtEntry \<and> length (password_buf w) < password_cap
      then Some (w\<lparr>password_buf := password_buf w @ [v]\<rparr>)
      else None)"

fun exec :: "string \<Rightarrow> string \<Rightarrow> chan \<Rightarrow> action list \<Rightarrow> bridge \<Rightarrow> bridge option" where
  "exec name prompt ch [] w = Some w"
| "exec name prompt ch (a # as) w =
     (case step name prompt ch a w of
        None \<Rightarrow> None
      | Some w' \<Rightarrow> exec name prompt ch as w')"

text \<open>The secrets sent on \<open>password\<close> in a schedule, and its \<^verbatim>\<open>select\<close> steps.\<close>

fun delivered :: "action list \<Rightarrow> byte_slice list" where
  "delivered [] = []"
| "delivered (Deliver v # as) = v # delivered as"
| "delivered (a # as) = delivered as"

fun is_select :: "action \<Rightarrow> bool" where
  "is_select SelectDone = True"
| "is_select SelectPassword = True"
| "is_select a = False"

section \<open>Start-up: \<^verbatim>\<open>run\<close>\<close>

subsection \<open>What the process finds outside\<close>

text \<open>
  \<^verbatim>\<open>run\<close> is a sequence of calls into other packages and the operating system. The
  value each call returns is a field of \<open>world\<close>; the calls themselves are recorded, in
  order, as effects. A Go \<^verbatim>\<open>error\<close> is its message; \<^verbatim>\<open>nil\<close> is \<open>None\<close>, and a
  result \<^verbatim>\<open>(v, err)\<close> is \<open>Inr v\<close> or \<open>Inl err\<close>. A theme
  (\<^verbatim>\<open>map[string]config.Color\<close>) is an association list.
  \<^verbatim>\<open>config.Current.Load\<close> and \<^verbatim>\<open>scripting.RunSetup\<close> write to the global
  \<^verbatim>\<open>config.Current\<close>: they take the configuration and return the new one, or the
  error after which \<^verbatim>\<open>run\<close> returns.
\<close>

type_synonym theme = "(string \<times> string) list"

text \<open>The fields of \<^verbatim>\<open>config.Current\<close> that \<^verbatim>\<open>run\<close> reads or writes.\<close>

record Config =
  Limit :: int
  UI_Theme_Dark :: string
  UI_Theme_Light :: string
  UI_Colors :: theme
  UI_AutoRefreshInterval :: int
  Revisions_Revset :: string
  Ssh_HijackAskpass :: bool

text \<open>The fields of the application context that \<^verbatim>\<open>run\<close> reads or writes.\<close>

record AppContext =
  Location :: string
  JJConfig_Revsets_Log :: string
  JJConfig_Colors :: theme
  DefaultRevset :: string
  CurrentRevset :: string

datatype cmd_result = CmdOutput string | CmdExitError string | CmdError string

datatype file_result = FileContent string | FileNotExist string | FileError string

record world =
  is_subprocess :: bool
    \<comment> \<open>what \<^verbatim>\<open>askpassServer.IsSubprocess()\<close> returns (package \<^verbatim>\<open>internal/askpass\<close>)\<close>
  stub_secret :: byte_slice
    \<comment> \<open>for a process run as prompt stub: the secret it obtained, \<open>None\<close> when the
        prompt was declined or cancelled\<close>
  flag_parse_exit :: "int option"
    \<comment> \<open>\<^verbatim>\<open>flag.Parse\<close> exits the process itself on a bad flag (\<^verbatim>\<open>flag.ExitOnError\<close>)\<close>
  flag_help :: bool
  flag_version :: bool
  flag_editConfig :: bool
  flag_revset :: string
  flag_period :: int
  flag_limit :: int
  flag_args :: "string list"
  build_Version :: string
  build_info :: "string option"
    \<comment> \<open>\<^verbatim>\<open>info.Main.Version\<close> when \<^verbatim>\<open>debug.ReadBuildInfo\<close> reports \<^verbatim>\<open>ok\<close>\<close>
  config_edit :: int
  getwd :: "string + string"
  jj_root :: "string \<Rightarrow> cmd_result"
    \<comment> \<open>\<^verbatim>\<open>jj root --color=always\<close> run in the given directory\<close>
  env_DEBUG :: string
  log_to_file :: "string option"
  config_initial :: Config
  new_app_context :: "string \<Rightarrow> AppContext"
  load_config_file :: file_result
  config_load :: "string \<Rightarrow> Config \<Rightarrow> string + Config"
  deprecated_config_warnings :: "string \<Rightarrow> string list"
  init_vm :: "string option"
  load_lua_config_file :: "string + string"
  run_setup :: "string \<Rightarrow> Config \<Rightarrow> string + Config"
  has_dark_background :: "nat \<Rightarrow> bool"
    \<comment> \<open>the answer of the terminal at the first (0) and the second (1) query\<close>
  load_embedded_theme :: "string \<Rightarrow> string + theme"
  load_theme :: "string \<Rightarrow> theme \<Rightarrow> string + theme"
  start_listening :: "string option"
  program_run :: "string option"

datatype log_output = LogFile | Discard

datatype effect =
    NewUnstartedServer string
  | IsSubprocess
  | FlagParse
  | Stdout string
  | Stderr string
  | FlagPrintDefaults
  | ConfigEdit
  | Getwd
  | JJRoot string
  | Getenv string
  | LogToFile string string
  | LogFatal string
  | LogSetOutput log_output
  | LogFileClose
  | NewAppContext string
  | HistoriesFlush
  | LoadConfigFile
  | ConfigLoad string
  | DeprecatedConfigWarnings string
  | InitVM
  | CloseVM
  | LoadLuaConfigFile
  | RunSetup string
  | HasDarkBackground
  | LoadEmbeddedTheme string
  | LoadTheme string
  | PaletteUpdate theme
  | NewProgram AppContext
  | StartListening
  | ServerClose
  | GoServe
  | ProgramRun

text \<open>
  What a run leaves behind: the effects in the order they happened, the exit status
  passed to \<^verbatim>\<open>os.Exit\<close>, and \<^verbatim>\<open>config.Current\<close> as \<^verbatim>\<open>run\<close> last wrote it.
\<close>

record outcome =
  effects :: "effect list"
  status :: int
  Current :: Config

definition ret :: "Config \<Rightarrow> int \<Rightarrow> outcome" where
  "ret cfg c = \<lparr>effects = [], status = c, Current = cfg\<rparr>"

definition emit :: "effect list \<Rightarrow> outcome \<Rightarrow> outcome" where
  "emit es out = out\<lparr>effects := es @ effects out\<rparr>"

text \<open>
  \<^verbatim>\<open>defer f()\<close> followed by the rest of the function: \<open>f\<close> runs when the function
  returns, after everything the rest does, so nested uses run last-deferred first.
\<close>

definition deferred :: "effect \<Rightarrow> outcome \<Rightarrow> outcome" where
  "deferred e out = out\<lparr>effects := effects out @ [e]\<rparr>"

subsection \<open>The helpers \<^verbatim>\<open>getVersion\<close> and \<^verbatim>\<open>getJJRootDir\<close>\<close>

definition getVersion :: "world \<Rightarrow> string" where
  "getVersion w =
     (if build_Version w \<noteq> [] then build_Version w
      else case build_info w of
             Some v \<Rightarrow> if v \<noteq> [] then v else ''unknown''
           | None \<Rightarrow> ''unknown'')"

text \<open>
  \<^verbatim>\<open>strings.TrimSpace\<close>: the string without its leading and trailing white space, as
  \<^verbatim>\<open>unicode.IsSpace\<close> defines it, the bytes in between untouched.
\<close>

definition TrimSpace :: "string \<Rightarrow> string" where
  "TrimSpace s =
     concat (map snd (rev (dropWhile (\<lambda>c. IsSpace (fst c))
       (rev (dropWhile (\<lambda>c. IsSpace (fst c)) (rune_chunks s))))))"

definition getJJRootDir :: "world \<Rightarrow> string \<Rightarrow> string + string" where
  "getJJRootDir w location =
     (case jj_root w location of
        CmdExitError stderr \<Rightarrow> Inl (TrimSpace stderr)
      | CmdError err \<Rightarrow> Inl err
      | CmdOutput output \<Rightarrow> Inr (TrimSpace output))"

subsection \<open>\<^verbatim>\<open>run\<close>, from its last lines to its first\<close>

text \<open>
  \<^verbatim>\<open>run\<close> is cut at the places where it can return; each piece takes the local
  variables that are live there and ends in the piece that follows it in the source.
  Lines 230 to 234: the UI event loop.
\<close>

definition run_program :: "world \<Rightarrow> Config \<Rightarrow> outcome" where
  "run_program w cfg =
     emit [ProgramRun]
       (case program_run w of
          Some err \<Rightarrow> emit [Stdout (''Error running program: '' @ err @ ''\<newline>'')] (ret cfg 1)
        | None \<Rightarrow> ret cfg 0)"

text \<open>Lines 217 to 229: the program is created, and the relay is started if configured.\<close>

definition run_askpass :: "world \<Rightarrow> Config \<Rightarrow> AppContext \<Rightarrow> outcome" where
  "run_askpass w cfg appContext =
     emit [NewProgram appContext]
       (if Ssh_HijackAskpass cfg
        then emit [StartListening]
               (case start_listening w of
                  Some err \<Rightarrow>
                    emit [Stderr (''Error: ssh.hijack_askpass: '' @ err @ ''\<newline>'')] (ret cfg 1)
                | None \<Rightarrow> deferred ServerClose (emit [GoServe] (run_program w cfg)))
        else run_program w cfg)"

text \<open>Lines 201 to 215: the palette, the refresh interval and the revset.\<close>

definition run_settings :: "world \<Rightarrow> Config \<Rightarrow> AppContext \<Rightarrow> theme \<Rightarrow> outcome" where
  "run_settings w cfg appContext theme =
     emit [PaletteUpdate theme, PaletteUpdate (JJConfig_Colors appContext),
           PaletteUpdate (UI_Colors cfg)]
       (let cfg' = (if flag_period w \<ge> 0 then cfg\<lparr>UI_AutoRefreshInterval := flag_period w\<rparr>
                    else cfg);
            rs = (if flag_revset w \<noteq> [] then flag_revset w
                  else if Revisions_Revset cfg' \<noteq> [] then Revisions_Revset cfg'
                  else JJConfig_Revsets_Log appContext)
        in run_askpass w cfg' (appContext\<lparr>DefaultRevset := rs, CurrentRevset := rs\<rparr>))"

text \<open>Lines 171 to 199: the default theme and the user's theme.\<close>

definition run_theme :: "world \<Rightarrow> Config \<Rightarrow> AppContext \<Rightarrow> outcome" where
  "run_theme w cfg appContext =
     emit [HasDarkBackground]
       (let defaultThemeName =
              (if has_dark_background w 0 then ''default_dark'' else ''default_light'')
        in emit [LoadEmbeddedTheme defaultThemeName]
             (case load_embedded_theme w defaultThemeName of
                Inl err \<Rightarrow>
                  emit [Stderr (''Error loading default theme '' @ [CHR 0x27] @ defaultThemeName
                                  @ [CHR 0x27] @ '': '' @ err @ ''\<newline>'')] (ret cfg 1)
              | Inr theme \<Rightarrow>
                  emit [HasDarkBackground]
                    (let userThemeName =
                           (if has_dark_background w 1 then UI_Theme_Dark cfg
                            else UI_Theme_Light cfg)
                     in if userThemeName \<noteq> []
                        then emit [LoadTheme userThemeName]
                               (case load_theme w userThemeName theme of
                                  Inl err \<Rightarrow>
                                    emit [Stderr (''Error loading user theme '' @ [CHR 0x27]
                                                    @ userThemeName @ [CHR 0x27] @ '': '' @ err
                                                    @ ''\<newline>'')] (ret cfg 1)
                                | Inr theme' \<Rightarrow> run_settings w cfg appContext theme')
                        else run_settings w cfg appContext theme)))"

text \<open>Lines 155 to 169: the scripting VM and \<^verbatim>\<open>config.lua\<close>.\<close>

definition run_scripting :: "world \<Rightarrow> Config \<Rightarrow> AppContext \<Rightarrow> outcome" where
  "run_scripting w cfg appContext =
     emit [InitVM]
       (case init_vm w of
          Some err \<Rightarrow> emit [Stderr (''Error initializing Lua VM: '' @ err @ ''\<newline>'')] (ret cfg 1)
        | None \<Rightarrow>
            deferred CloseVM
              (emit [LoadLuaConfigFile]
                 (case load_lua_config_file w of
                    Inl err \<Rightarrow>
                      emit [Stderr (''Error loading config.lua: '' @ err @ ''\<newline>'')] (ret cfg 1)
                  | Inr luaSource \<Rightarrow>
                      if luaSource \<noteq> []
                      then emit [RunSetup luaSource]
                             (case run_setup w luaSource cfg of
                                Inl err \<Rightarrow>
                                  emit [Stderr (''Error in config.lua: '' @ err @ ''\<newline>'')]
                                    (ret cfg 1)
                              | Inr cfg' \<Rightarrow> run_theme w cfg' appContext)
                      else run_theme w cfg appContext)))"

text \<open>Lines 136 to 153: the limit flag, the application context and the configuration file.\<close>

definition run_config :: "world \<Rightarrow> string \<Rightarrow> outcome" where
  "run_config w rootLocation =
     (let cfg = (if flag_limit w > 0 then (config_initial w)\<lparr>Limit := flag_limit w\<rparr>
                 else config_initial w);
          appContext = new_app_context w rootLocation
      in emit [NewAppContext rootLocation]
           (deferred HistoriesFlush
              (emit [LoadConfigFile]
                 (case load_config_file w of
                    FileContent output \<Rightarrow>
                      emit [ConfigLoad output]
                        (case config_load w output cfg of
                           Inl err \<Rightarrow>
                             emit [Stderr (''Error loading configuration: '' @ err @ ''\<newline>'')]
                               (ret cfg 1)
                         | Inr cfg' \<Rightarrow>
                             emit (DeprecatedConfigWarnings output
                                     # map (\<lambda>warning. Stderr (''Warning: '' @ warning @ ''\<newline>''))
                                         (deprecated_config_warnings w output))
                               (run_scripting w cfg' appContext))
                  | FileNotExist err \<Rightarrow> run_scripting w cfg appContext
                  | FileError err \<Rightarrow>
                      emit [Stderr (''Error: '' @ err @ ''\<newline>'')] (ret cfg 1)))))"

text \<open>
  Lines 125 to 134: logging. \<^verbatim>\<open>log.Fatalf\<close> writes its message and calls
  \<^verbatim>\<open>os.Exit(1)\<close>.
\<close>

definition run_logging :: "world \<Rightarrow> string \<Rightarrow> outcome" where
  "run_logging w rootLocation =
     emit [Getenv ''DEBUG'']
       (if length (env_DEBUG w) > 0
        then emit [LogToFile ''debug.log'' ''debug'']
               (case log_to_file w of
                  Some err \<Rightarrow>
                    emit [LogFatal (''failed to set logging file: '' @ err)]
                      (ret (config_initial w) 1)
                | None \<Rightarrow>
                    deferred LogFileClose
                      (emit [LogSetOutput LogFile] (run_config w rootLocation)))
        else emit [LogSetOutput Discard] (run_config w rootLocation))"

text \<open>Lines 119 to 123: the root of the repository.\<close>

definition run_root :: "world \<Rightarrow> string \<Rightarrow> outcome" where
  "run_root w location =
     emit [JJRoot location]
       (case getJJRootDir w location of
          Inl err \<Rightarrow> emit [Stderr (err @ ''\<newline>'')] (ret (config_initial w) 1)
        | Inr rootLocation \<Rightarrow> run_logging w rootLocation)"

text \<open>Lines 105 to 117: the location argument, or the current directory.\<close>

definition run_location :: "world \<Rightarrow> outcome" where
  "run_location w =
     (let location = (case flag_args w of [] \<Rightarrow> [] | a # args \<Rightarrow> a)
      in if location = []
         then emit [Getwd]
                (case getwd w of
                   Inl err \<Rightarrow>
                     emit [Stderr (''Error: couldn't determine the current directory: '' @ err
                                     @ ''.\<newline>''),
                           Stderr (''Please pass the location of a '' @ [CHR 0x60] @ ''jj''
                                     @ [CHR 0x60] @ '' repo as an argument to '' @ [CHR 0x60]
                                     @ ''jjui'' @ [CHR 0x60] @ ''.\<newline>'')]
                       (ret (config_initial w) 1)
                 | Inr dir \<Rightarrow> run_root w dir)
         else run_root w location)"

text \<open>Lines 93 to 103: the command line.\<close>

definition run_flags :: "world \<Rightarrow> outcome" where
  "run_flags w =
     emit [FlagParse]
       (case flag_parse_exit w of
          Some c \<Rightarrow> ret (config_initial w) c
        | None \<Rightarrow>
            if flag_help w
            then emit [Stdout ''Usage: jjui [flags] [location]\<newline>'', Stdout ''Flags:\<newline>'',
                       FlagPrintDefaults]
                   (ret (config_initial w) 0)
            else if flag_version w
            then emit [Stdout (getVersion w @ ''\<newline>'')] (ret (config_initial w) 0)
            else if flag_editConfig w
            then emit [ConfigEdit] (ret (config_initial w) (config_edit w))
            else run_location w)"

text \<open>
  Lines 87 to 91: the relay server is created unstarted and asked whether this process
  is a prompt stub; if it is, \<^verbatim>\<open>run\<close> returns 0.
\<close>

definition run :: "world \<Rightarrow> outcome" where
  "run w =
     emit [NewUnstartedServer ''JJUI'', IsSubprocess]
       (if is_subprocess w then ret (config_initial w) 0 else run_flags w)"

section \<open>Notions used in the statements and proofs\<close>

text \<open>The signal that fires first in a schedule: the closing of \<open>done\<close> or a delivery.\<close>

fun first_signal :: "action list \<Rightarrow> action option" where
  "first_signal [] = None"
| "first_signal (FireDone # as) = Some FireDone"
| "first_signal (Deliver v # as) = Some (Deliver v)"
| "first_signal (a # as) = first_signal as"

text \<open>
  What holds of the state after a schedule \<open>acts\<close> run from \<^const>\<open>init_bridge\<close>: where
  the handler stands fixes what it has sent, which \<^verbatim>\<open>select\<close> steps the schedule
  holds, and how the buffer relates to the deliveries.
\<close>

definition reach_inv :: "string \<Rightarrow> chan \<Rightarrow> action list \<Rightarrow> bridge \<Rightarrow> bool" where
  "reach_inv prompt ch acts w =
     (done_fired w = (FireDone \<in> set acts) \<and>
      (case pc w of
         AtEntry \<Rightarrow> sent w = [] \<and> delivered acts = [] \<and> filter is_select acts = []
       | AtSelect \<Rightarrow>
           password_buf w = delivered acts \<and> length (delivered acts) \<le> 1 \<and>
           sent w = [show_prompt prompt ch] \<and> filter is_select acts = []
       | Returned r \<Rightarrow>
           (filter is_select acts = [SelectDone] \<and> r = None \<and> FireDone \<in> set acts \<and>
            sent w = [show_prompt prompt ch, hide_prompt] \<and>
            password_buf w = delivered acts \<and> length (delivered acts) \<le> 1)
           \<or>
           (filter is_select acts = [SelectPassword] \<and>
            delivered acts = r # password_buf w \<and> length (password_buf w) \<le> 1 \<and>
            sent w = [show_prompt prompt ch])))"

text \<open>
  The effects of lines 217 to 234 that belong to the relay and the UI loop, and the shape
  of every outcome of \<^const>\<open>run\<close>: either none of these effects happens, or the
  outcome is that of \<^const>\<open>run_askpass\<close> between effects of other kinds.
\<close>

definition relay_effect :: "effect \<Rightarrow> bool" where
  "relay_effect e = (e \<in> set [StartListening, ServerClose, GoServe, ProgramRun])"

definition through_askpass :: "world \<Rightarrow> outcome \<Rightarrow> bool" where
  "through_askpass w out =
     (\<not> list_ex relay_effect (effects out) \<or>
      (\<exists>cfg appContext pre post.
         \<not> list_ex relay_effect pre \<and> \<not> list_ex relay_effect post \<and>
         effects out = pre @ effects (run_askpass w cfg appContext) @ post \<and>
         status out = status (run_askpass w cfg appContext) \<and>
         Current out = Current (run_askpass w cfg appContext)))"

subsection \<open>Concrete inputs\<close>

text \<open>
  A prompt of white space only: a space, a tab, U+00A0 and U+2003 in UTF-8.
\<close>

definition blank_prompt :: string where
  "blank_prompt = [CHR 0x20, CHR 0x09, CHR 0xC2, CHR 0xA0, CHR 0xE2, CHR 0x80, CHR 0x83]"

text \<open>
  A plain launch inside a repository: no flags, no configuration file, no
  \<^verbatim>\<open>config.lua\<close>, every call succeeds.
\<close>

definition primary_world :: world where
  "primary_world =
     \<lparr>is_subprocess = False, stub_secret = None, flag_parse_exit = None,
      flag_help = False, flag_version = False, flag_editConfig = False,
      flag_revset = [], flag_period = - 1, flag_limit = 0, flag_args = [],
      build_Version = [], build_info = None, config_edit = 0,
      getwd = Inr ''/home/user/repo'',
      jj_root = (\<lambda>dir. CmdOutput (dir @ ''\<newline>'')),
      env_DEBUG = [], log_to_file = None,
      config_initial =
        \<lparr>Limit = 0, UI_Theme_Dark = [], UI_Theme_Light = [], UI_Colors = [],
         UI_AutoRefreshInterval = 0, Revisions_Revset = [], Ssh_HijackAskpass = False\<rparr>,
      new_app_context =
        (\<lambda>root. \<lparr>Location = root, JJConfig_Revsets_Log = ''present(@)'',
                  JJConfig_Colors = [], DefaultRevset = [], CurrentRevset = []\<rparr>),
      load_config_file = FileNotExist ''config.toml: no such file or directory'',
      config_load = (\<lambda>text cfg. Inr cfg),
      deprecated_config_warnings = (\<lambda>text. []),
      init_vm = None, load_lua_config_file = Inr [],
      run_setup = (\<lambda>source cfg. Inr cfg),
      has_dark_background = (\<lambda>n. True),
      load_embedded_theme = (\<lambda>name. Inr []),
      load_theme = (\<lambda>name base. Inr base),
      start_listening = None, program_run = None\<rparr>"

text \<open>The same launch with a configuration file that turns the relay on.\<close>

definition hijack_world :: world where
  "hijack_world =
     primary_world
       \<lparr>load_config_file := FileContent ''[ssh]\<newline>hijack_askpass = true\<newline>'',
        config_load := (\<lambda>text cfg. Inr (cfg\<lparr>Ssh_HijackAskpass := True\<rparr>))\<rparr>"

text \<open>The relay is turned on and its address cannot be bound.\<close>

definition bind_error_world :: world where
  "bind_error_world =
     hijack_world\<lparr>start_listening := Some ''bind: address already in use''\<rparr>"

text \<open>The process runs as prompt stub and the prompt was declined.\<close>

definition declined_stub_world :: world where
  "declined_stub_world = primary_world\<lparr>is_subprocess := True, stub_secret := None\<rparr>"

section \<open>Properties of the prompt handler\<close>

subsection \<open>Executions and their invariant\<close>

lemma exec_append:
  "exec n p c (as @ bs) w =
     (case exec n p c as w of None \<Rightarrow> None | Some w' \<Rightarrow> exec n p c bs w')"
  by (induction as arbitrary: w) (auto split: option.splits)

lemma delivered_append: "delivered (as @ bs) = delivered as @ delivered bs"
  by (induction as rule: delivered.induct) auto

lemma reach_inv_init: "reach_inv prompt ch [] init_bridge"
  by (simp add: reach_inv_def init_bridge_def)

lemma reach_inv_step:
  "reach_inv prompt ch acts w \<Longrightarrow> step name prompt ch a w = Some w' \<Longrightarrow>
   reach_inv prompt ch (acts @ [a]) w'"
  by (cases a; cases "pc w")
     (auto simp: reach_inv_def delivered_append password_cap_def
           split: if_splits list.splits)

lemma reach_inv_exec:
  "exec name prompt ch acts init_bridge = Some w \<Longrightarrow> reach_inv prompt ch acts w"
proof (induction acts arbitrary: w rule: rev_induct)
  case Nil
  then show ?case by (simp add: reach_inv_init)
next
  case (snoc a as)
  then show ?case
    by (auto simp: exec_append split: option.splits dest: reach_inv_step)
qed

lemma reach_inv_shown:
  "reach_inv prompt ch acts w \<Longrightarrow> pc w \<noteq> AtEntry \<Longrightarrow>
   \<exists>rest. sent w = show_prompt prompt ch # rest"
  by (cases "pc w") (auto simp: reach_inv_def)

lemma reach_inv_returned:
  "reach_inv prompt ch acts w \<Longrightarrow> pc w = Returned r \<Longrightarrow>
     (filter is_select acts = [SelectDone] \<and> r = None \<and>
      sent w = [show_prompt prompt ch, hide_prompt] \<and> password_buf w = delivered acts \<and>
      length (delivered acts) \<le> 1)
     \<or> (filter is_select acts = [SelectPassword] \<and> delivered acts = r # password_buf w \<and>
        sent w = [show_prompt prompt ch])"
  by (auto simp: reach_inv_def)

lemma reach_inv_selected:
  "reach_inv prompt ch acts w \<Longrightarrow> filter is_select acts \<noteq> [] \<Longrightarrow> \<exists>r. pc w = Returned r"
  by (cases "pc w") (auto simp: reach_inv_def)

subsection \<open>The prompt label\<close>

lemma adjustPrompt_loop_spaces:
  "\<forall>r\<in>set rs. IsSpace r \<Longrightarrow> adjustPrompt_loop rs s = ''ssh-askpass: ''"
  by (induction rs) simp_all

lemma adjustPrompt_loop_text:
  "\<exists>r\<in>set rs. \<not> IsSpace r \<Longrightarrow> adjustPrompt_loop rs s = s"
  by (induction rs) auto

lemma blank_prompt_runes: "runes blank_prompt = [0x20, 0x09, 0xA0, 0x2003]"
  by code_simp

lemma password_prompt_runes:
  "runes ''Password: '' = [80, 97, 115, 115, 119, 111, 114, 100, 58, 32]"
  by code_simp

text \<open>
  Claim C3. In every execution of the handler, once it has passed its entry the first
  message it sent is the show-prompt message: its \<open>Password\<close> field is the channel made
  for this invocation and its \<open>Prompt\<close> field is the fallback label
  \<^verbatim>\<open>"ssh-askpass: "\<close> when every rune of the prompt is Unicode white space (the empty
  prompt included), and the prompt as given when some rune is not.
\<close>

theorem showPassword_prompt_label:
  assumes "exec name prompt ch acts init_bridge = Some w" and "pc w \<noteq> AtEntry"
  shows "hd (sent w) =
           \<lparr>Prompt = (if \<forall>r\<in>set (runes prompt). IsSpace r then ''ssh-askpass: '' else prompt),
            Password = Some ch\<rparr>"
proof -
  from assms obtain rest where "sent w = show_prompt prompt ch # rest"
    using reach_inv_exec reach_inv_shown by blast
  moreover have "adjustPrompt prompt =
      (if \<forall>r\<in>set (runes prompt). IsSpace r then ''ssh-askpass: '' else prompt)"
    unfolding adjustPrompt_def
    by (simp add: adjustPrompt_loop_spaces adjustPrompt_loop_text)
  ultimately show ?thesis
    by (simp add: show_prompt_def)
qed

theorem showPassword_prompt_label_witness:
  "exec ''ssh'' blank_prompt 0 [Enter] init_bridge =
     Some \<lparr>pc = AtSelect, done_fired = False, password_buf = [],
           sent = [\<lparr>Prompt = ''ssh-askpass: '', Password = Some 0\<rparr>]\<rparr> \<and>
   exec ''ssh'' ''Password: '' 0 [Enter] init_bridge =
     Some \<lparr>pc = AtSelect, done_fired = False, password_buf = [],
           sent = [\<lparr>Prompt = ''Password: '', Password = Some 0\<rparr>]\<rparr>"
proof -
  have e1: "exec ''ssh'' blank_prompt 0 [Enter] init_bridge =
      Some \<lparr>pc = AtSelect, done_fired = False, password_buf = [],
            sent = [show_prompt blank_prompt 0]\<rparr>"
    by (simp add: init_bridge_def)
  have e2: "exec ''ssh'' ''Password: '' 0 [Enter] init_bridge =
      Some \<lparr>pc = AtSelect, done_fired = False, password_buf = [],
            sent = [show_prompt ''Password: '' 0]\<rparr>"
    by (simp add: init_bridge_def)
  have s1: "\<forall>r\<in>set (runes blank_prompt). IsSpace r"
    by (simp add: blank_prompt_runes IsSpace_def MaxLatin1_def White_Space_def)
  have s2: "\<not> (\<forall>r\<in>set (runes ''Password: ''). IsSpace r)"
    by (simp add: password_prompt_runes IsSpace_def MaxLatin1_def)
  from showPassword_prompt_label [OF e1] s1
  have "show_prompt blank_prompt 0 = \<lparr>Prompt = ''ssh-askpass: '', Password = Some 0\<rparr>"
    by simp
  moreover from showPassword_prompt_label [OF e2] s2
  have "show_prompt ''Password: '' 0 = \<lparr>Prompt = ''Password: '', Password = Some 0\<rparr>"
    by simp
  ultimately show ?thesis
    using e1 e2 by simp
qed

text \<open>
  Claim C10. \<^verbatim>\<open>adjustPrompt\<close> is the identity on every string in which the
  \<^verbatim>\<open>range\<close> loop meets a rune that is not white space: the result is the argument
  itself, byte for byte.
\<close>

theorem adjustPrompt_identity:
  "\<exists>r\<in>set (runes s). \<not> IsSpace r \<Longrightarrow> adjustPrompt s = s"
  unfolding adjustPrompt_def by (rule adjustPrompt_loop_text)

theorem adjustPrompt_identity_witness:
  "(\<exists>r\<in>set (runes ''Password: ''). \<not> IsSpace r) \<and>
   adjustPrompt ''Password: '' = ''Password: ''"
proof -
  have "\<exists>r\<in>set (runes ''Password: ''). \<not> IsSpace r"
    by (simp add: password_prompt_runes IsSpace_def MaxLatin1_def)
  then show ?thesis
    using adjustPrompt_identity [of "''Password: ''"] by blast
qed

subsection \<open>Cancellation\<close>





subsection \<open>Completion\<close>







subsection \<open>Cancellation against completion\<close>

text \<open>
  Claim C4, as the code has it. In every execution at most one \<^verbatim>\<open>select\<close> step is
  taken, and the handler has returned exactly when one was taken. At the
  \<^verbatim>\<open>select\<close>, when only \<open>done\<close> has fired the \<open>done\<close> case is the only one that
  can proceed; when only a secret has been delivered the \<open>password\<close> case is the only
  one; when both have happened either case can be taken, whichever came first. Once the
  \<open>done\<close> case has been taken the result is \<^verbatim>\<open>nil\<close> and stays so; a secret delivered
  afterwards into the still empty channel is accepted at once (the sender does not block)
  and changes nothing but the buffer.
\<close>

theorem showPassword_select_exclusive:
  assumes "exec name prompt ch acts init_bridge = Some w"
  shows "length (filter is_select acts) \<le> 1 \<and>
         ((\<exists>r. pc w = Returned r) \<longleftrightarrow> length (filter is_select acts) = 1) \<and>
         (pc w = AtSelect \<and> done_fired w \<and> password_buf w = [] \<longrightarrow>
            step name prompt ch SelectPassword w = None \<and>
            step name prompt ch SelectDone w \<noteq> None) \<and>
         (pc w = AtSelect \<and> \<not> done_fired w \<and> password_buf w \<noteq> [] \<longrightarrow>
            step name prompt ch SelectDone w = None \<and>
            step name prompt ch SelectPassword w \<noteq> None) \<and>
         (pc w = AtSelect \<and> done_fired w \<and> password_buf w \<noteq> [] \<longrightarrow>
            step name prompt ch SelectDone w \<noteq> None \<and>
            step name prompt ch SelectPassword w \<noteq> None) \<and>
         (SelectDone \<in> set acts \<longrightarrow>
            pc w = Returned None \<and>
            (delivered acts = [] \<longrightarrow>
               step name prompt ch (Deliver v) w = Some (w\<lparr>password_buf := [v]\<rparr>)))"
proof -
  have inv: "reach_inv prompt ch acts w"
    using assms by (rule reach_inv_exec)
  have one: "length (filter is_select acts) \<le> 1"
    using inv by (cases "pc w") (auto simp: reach_inv_def)
  have ret: "(\<exists>r. pc w = Returned r) \<longleftrightarrow> length (filter is_select acts) = 1"
    using inv by (cases "pc w") (auto simp: reach_inv_def)
  have local: "(pc w = AtSelect \<and> done_fired w \<and> password_buf w = [] \<longrightarrow>
            step name prompt ch SelectPassword w = None \<and>
            step name prompt ch SelectDone w \<noteq> None) \<and>
         (pc w = AtSelect \<and> \<not> done_fired w \<and> password_buf w \<noteq> [] \<longrightarrow>
            step name prompt ch SelectDone w = None \<and>
            step name prompt ch SelectPassword w \<noteq> None) \<and>
         (pc w = AtSelect \<and> done_fired w \<and> password_buf w \<noteq> [] \<longrightarrow>
            step name prompt ch SelectDone w \<noteq> None \<and>
            step name prompt ch SelectPassword w \<noteq> None)"
    by (auto split: list.splits)
  have late: "pc w = Returned None \<and>
            (delivered acts = [] \<longrightarrow>
               step name prompt ch (Deliver v) w = Some (w\<lparr>password_buf := [v]\<rparr>))"
    if sd: "SelectDone \<in> set acts"
  proof -
    from sd have mem: "SelectDone \<in> set (filter is_select acts)"
      by simp
    then have "0 < length (filter is_select acts)"
      by (rule length_pos_if_in_set)
    then have ne: "filter is_select acts \<noteq> []"
      by blast
    then obtain r where r: "pc w = Returned r"
      using inv reach_inv_selected by blast
    have "filter is_select acts \<noteq> [SelectPassword]"
    proof
      assume eq: "filter is_select acts = [SelectPassword]"
      from mem show False
        unfolding eq by simp
    qed
    with reach_inv_returned [OF inv r]
    have c: "r = None" "password_buf w = delivered acts"
      by auto
    with r show ?thesis
      by (simp add: password_cap_def)
  qed
  from one ret local late show ?thesis
    by blast
qed

theorem showPassword_select_exclusive_witness:
  "exec ''ssh'' ''Password: '' 0 [Enter, FireDone, SelectDone] init_bridge =
     Some \<lparr>pc = Returned None, done_fired = True, password_buf = [],
           sent = [show_prompt ''Password: '' 0, hide_prompt]\<rparr> \<and>
   length (filter is_select [Enter, FireDone, SelectDone]) = 1 \<and>
   step ''ssh'' ''Password: '' 0 (Deliver (Some [0x70, 0x77]))
     \<lparr>pc = Returned None, done_fired = True, password_buf = [],
      sent = [show_prompt ''Password: '' 0, hide_prompt]\<rparr> =
     Some \<lparr>pc = Returned None, done_fired = True, password_buf = [Some [0x70, 0x77]],
           sent = [show_prompt ''Password: '' 0, hide_prompt]\<rparr>"
proof -
  have e: "exec ''ssh'' ''Password: '' 0 [Enter, FireDone, SelectDone] init_bridge =
     Some \<lparr>pc = Returned None, done_fired = True, password_buf = [],
           sent = [show_prompt ''Password: '' 0, hide_prompt]\<rparr>"
    by (simp add: init_bridge_def)
  from showPassword_select_exclusive [OF e, of "Some [0x70, 0x77]"] e show ?thesis
    by simp
qed

text \<open>
  The claim as the specification words it fails twice. A secret is delivered, then
  \<open>done\<close> fires, then the \<^verbatim>\<open>select\<close> runs and takes the \<open>done\<close> case: the first
  signal was the secret, the result is \<^verbatim>\<open>nil\<close>. And \<open>done\<close> fires, then a secret is
  delivered, then the \<^verbatim>\<open>select\<close> runs and takes the \<open>password\<close> case: the secret
  that arrived after the cancellation is returned.
\<close>

theorem showPassword_first_signal_counterexample:
  "first_signal [Enter, Deliver (Some [0x70, 0x77]), FireDone, SelectDone]
     = Some (Deliver (Some [0x70, 0x77])) \<and>
   map_option pc
     (exec ''ssh'' ''Password: '' 0 [Enter, Deliver (Some [0x70, 0x77]), FireDone, SelectDone]
        init_bridge) = Some (Returned None) \<and>
   first_signal [Enter, FireDone, Deliver (Some [0x70, 0x77]), SelectPassword] = Some FireDone \<and>
   map_option pc
     (exec ''ssh'' ''Password: '' 0 [Enter, FireDone, Deliver (Some [0x70, 0x77]), SelectPassword]
        init_bridge) = Some (Returned (Some [0x70, 0x77]))"
  by (simp add: init_bridge_def password_cap_def)

section \<open>Properties of \<^verbatim>\<open>run\<close>\<close>

subsection \<open>Every outcome passes through lines 217 to 234 or leaves them untouched\<close>

lemma quiet_Nil: "\<not> list_ex relay_effect []"
  by simp

lemma quiet_Cons:
  "\<not> relay_effect e \<Longrightarrow> \<not> list_ex relay_effect es \<Longrightarrow> \<not> list_ex relay_effect (e # es)"
  by simp

lemma quiet_effects:
  "\<not> relay_effect (NewUnstartedServer s)" "\<not> relay_effect IsSubprocess"
  "\<not> relay_effect FlagParse" "\<not> relay_effect (Stdout s)" "\<not> relay_effect (Stderr s)"
  "\<not> relay_effect FlagPrintDefaults" "\<not> relay_effect ConfigEdit" "\<not> relay_effect Getwd"
  "\<not> relay_effect (JJRoot s)" "\<not> relay_effect (Getenv s)" "\<not> relay_effect (LogToFile s t)"
  "\<not> relay_effect (LogFatal s)" "\<not> relay_effect (LogSetOutput l)"
  "\<not> relay_effect LogFileClose" "\<not> relay_effect (NewAppContext s)"
  "\<not> relay_effect HistoriesFlush" "\<not> relay_effect LoadConfigFile"
  "\<not> relay_effect (ConfigLoad s)" "\<not> relay_effect (DeprecatedConfigWarnings s)"
  "\<not> relay_effect InitVM" "\<not> relay_effect CloseVM" "\<not> relay_effect LoadLuaConfigFile"
  "\<not> relay_effect (RunSetup s)" "\<not> relay_effect HasDarkBackground"
  "\<not> relay_effect (LoadEmbeddedTheme s)" "\<not> relay_effect (LoadTheme s)"
  "\<not> relay_effect (PaletteUpdate th)" "\<not> relay_effect (NewProgram c)"
  by (simp_all add: relay_effect_def)

lemma quiet_warnings:
  "\<not> list_ex relay_effect (map (\<lambda>warning. Stderr (f warning)) ws)"
  by (induction ws) (simp_all add: relay_effect_def)

lemma quiet_set: "\<not> list_ex relay_effect es \<Longrightarrow> e \<in> set es \<Longrightarrow> \<not> relay_effect e"
  by (auto simp: list_ex_iff)

lemma through_ret: "through_askpass w (ret cfg c)"
  by (simp add: through_askpass_def ret_def)

lemma through_self: "through_askpass w (run_askpass w cfg appContext)"
proof -
  have "effects (run_askpass w cfg appContext) = [] @ effects (run_askpass w cfg appContext) @ []"
    by simp
  moreover have "\<not> list_ex relay_effect []"
    by simp
  ultimately show ?thesis
    unfolding through_askpass_def by blast
qed

lemma through_emit:
  assumes "\<not> list_ex relay_effect es" and "through_askpass w out"
  shows "through_askpass w (emit es out)"
proof (cases "list_ex relay_effect (effects out)")
  case False
  with assms(1) show ?thesis
    by (simp add: through_askpass_def emit_def)
next
  case True
  with assms(2) obtain cfg appContext pre post where
    h: "\<not> list_ex relay_effect pre" "\<not> list_ex relay_effect post"
       "effects out = pre @ effects (run_askpass w cfg appContext) @ post"
       "status out = status (run_askpass w cfg appContext)"
       "Current out = Current (run_askpass w cfg appContext)"
    unfolding through_askpass_def by blast
  have "\<not> list_ex relay_effect (es @ pre)"
    using assms(1) h(1) by simp
  moreover have "effects (emit es out) = (es @ pre) @ effects (run_askpass w cfg appContext) @ post"
    using h(3) by (simp add: emit_def)
  moreover have "status (emit es out) = status (run_askpass w cfg appContext)"
    "Current (emit es out) = Current (run_askpass w cfg appContext)"
    using h(4,5) by (simp_all add: emit_def)
  ultimately show ?thesis
    unfolding through_askpass_def using h(2) by blast
qed

lemma through_deferred:
  assumes "\<not> relay_effect e" and "through_askpass w out"
  shows "through_askpass w (deferred e out)"
proof (cases "list_ex relay_effect (effects out)")
  case False
  with assms(1) show ?thesis
    by (simp add: through_askpass_def deferred_def)
next
  case True
  with assms(2) obtain cfg appContext pre post where
    h: "\<not> list_ex relay_effect pre" "\<not> list_ex relay_effect post"
       "effects out = pre @ effects (run_askpass w cfg appContext) @ post"
       "status out = status (run_askpass w cfg appContext)"
       "Current out = Current (run_askpass w cfg appContext)"
    unfolding through_askpass_def by blast
  have "\<not> list_ex relay_effect (post @ [e])"
    using assms(1) h(2) by simp
  moreover have "effects (deferred e out) =
      pre @ effects (run_askpass w cfg appContext) @ (post @ [e])"
    using h(3) by (simp add: deferred_def)
  moreover have "status (deferred e out) = status (run_askpass w cfg appContext)"
    "Current (deferred e out) = Current (run_askpass w cfg appContext)"
    using h(4,5) by (simp_all add: deferred_def)
  ultimately show ?thesis
    unfolding through_askpass_def using h(1) by blast
qed

lemma through_if:
  "through_askpass w a \<Longrightarrow> through_askpass w b \<Longrightarrow> through_askpass w (if c then a else b)"
  by simp

lemma through_let: "through_askpass w (f x) \<Longrightarrow> through_askpass w (Let x f)"
  by simp

lemma through_case_sum:
  "(\<And>e. through_askpass w (f e)) \<Longrightarrow> (\<And>v. through_askpass w (g v)) \<Longrightarrow>
   through_askpass w (case x of Inl e \<Rightarrow> f e | Inr v \<Rightarrow> g v)"
  by (cases x) simp_all

lemma through_case_option:
  "through_askpass w a \<Longrightarrow> (\<And>v. through_askpass w (g v)) \<Longrightarrow>
   through_askpass w (case x of None \<Rightarrow> a | Some v \<Rightarrow> g v)"
  by (cases x) simp_all

lemma through_case_file:
  "(\<And>v. through_askpass w (f v)) \<Longrightarrow> (\<And>v. through_askpass w (g v)) \<Longrightarrow>
   (\<And>v. through_askpass w (h v)) \<Longrightarrow>
   through_askpass w
     (case x of FileContent v \<Rightarrow> f v | FileNotExist v \<Rightarrow> g v | FileError v \<Rightarrow> h v)"
  by (cases x) simp_all

lemmas through_rules =
  through_ret through_emit through_deferred through_if through_let through_case_sum
  through_case_option through_case_file quiet_Nil quiet_Cons quiet_effects quiet_warnings

lemma through_settings: "through_askpass w (run_settings w cfg appContext theme)"
  unfolding run_settings_def by (intro through_rules through_self)

lemma through_theme: "through_askpass w (run_theme w cfg appContext)"
  unfolding run_theme_def by (intro through_rules through_settings)

lemma through_scripting: "through_askpass w (run_scripting w cfg appContext)"
  unfolding run_scripting_def by (intro through_rules through_theme)

lemma through_config: "through_askpass w (run_config w rootLocation)"
  unfolding run_config_def by (intro through_rules through_scripting)

lemma through_logging: "through_askpass w (run_logging w rootLocation)"
  unfolding run_logging_def by (intro through_rules through_config)

lemma through_root: "through_askpass w (run_root w location)"
  unfolding run_root_def by (intro through_rules through_logging)

lemma through_location: "through_askpass w (run_location w)"
  unfolding run_location_def by (intro through_rules through_root)

lemma through_flags: "through_askpass w (run_flags w)"
  unfolding run_flags_def by (intro through_rules through_location)

lemma through_run: "through_askpass w (run w)"
  unfolding run_def by (intro through_rules through_flags)

lemma run_decompose:
  assumes "e \<in> set (effects (run w))" and "relay_effect e"
  obtains cfg appContext pre post where
    "\<not> list_ex relay_effect pre" "\<not> list_ex relay_effect post"
    "effects (run w) = pre @ effects (run_askpass w cfg appContext) @ post"
    "status (run w) = status (run_askpass w cfg appContext)"
    "Current (run w) = Current (run_askpass w cfg appContext)"
proof -
  from assms have "list_ex relay_effect (effects (run w))"
    by (auto simp: list_ex_iff)
  with through_run [of w] show ?thesis
    unfolding through_askpass_def using that by blast
qed

subsection \<open>Lines 217 to 234\<close>

lemma askpass_Current: "Current (run_askpass w cfg appContext) = cfg"
  by (simp add: run_askpass_def run_program_def emit_def deferred_def ret_def
           split: option.splits)

lemma askpass_gate:
  "StartListening \<in> set (effects (run_askpass w cfg appContext)) \<or>
   GoServe \<in> set (effects (run_askpass w cfg appContext)) \<Longrightarrow> Ssh_HijackAskpass cfg"
  by (auto simp: run_askpass_def run_program_def emit_def deferred_def ret_def
           split: option.splits if_splits)

lemma askpass_bind_error:
  "StartListening \<in> set (effects (run_askpass w cfg appContext)) \<Longrightarrow>
   start_listening w = Some err \<Longrightarrow>
   run_askpass w cfg appContext =
     \<lparr>effects = [NewProgram appContext, StartListening,
                  Stderr (''Error: ssh.hijack_askpass: '' @ err @ ''\<newline>'')],
      status = 1, Current = cfg\<rparr>"
  by (auto simp: run_askpass_def run_program_def emit_def deferred_def ret_def
           split: option.splits if_splits)

subsection \<open>The stub branch\<close>




text \<open>
  Claim C7. The first two things \<^verbatim>\<open>run\<close> does, in every run, are to create the
  unstarted relay server and to ask it whether the process is a prompt stub; nothing
  comes before. When the answer is yes, these are the only two effects of the run: it
  returns 0 at once, with no flag parsed, no configuration loaded, no scripting VM, no
  theme and no UI program, and \<^verbatim>\<open>config.Current\<close> untouched.
\<close>

theorem role_detection_first:
  "take 2 (effects (run w)) = [NewUnstartedServer ''JJUI'', IsSubprocess] \<and>
   (is_subprocess w \<longrightarrow>
      run w = \<lparr>effects = [NewUnstartedServer ''JJUI'', IsSubprocess], status = 0,
               Current = config_initial w\<rparr>)"
  by (simp add: run_def emit_def ret_def)

theorem role_detection_first_witness:
  "is_subprocess declined_stub_world \<and>
   run declined_stub_world =
     \<lparr>effects = [NewUnstartedServer ''JJUI'', IsSubprocess], status = 0,
      Current = config_initial primary_world\<rparr> \<and>
   FlagParse \<notin> set (effects (run declined_stub_world)) \<and>
   take 2 (effects (run primary_world)) = [NewUnstartedServer ''JJUI'', IsSubprocess]"
proof -
  have s: "is_subprocess declined_stub_world"
    by (simp add: declined_stub_world_def)
  have c: "config_initial declined_stub_world = config_initial primary_world"
    by (simp add: declined_stub_world_def)
  from role_detection_first [of declined_stub_world] role_detection_first [of primary_world] s c
  show ?thesis
    by simp
qed

subsection \<open>The relay is started only when configured\<close>

text \<open>
  Claim C9. Every run creates the relay server. When the option
  \<^verbatim>\<open>ssh.hijack_askpass\<close> of \<^verbatim>\<open>config.Current\<close> is false, the run neither calls
  \<^verbatim>\<open>StartListening\<close> nor starts \<^verbatim>\<open>Serve\<close> with the prompt handler, so the server
  never listens and the handler never runs; stated the other way round, these two
  happen only in runs where the option is true.
\<close>

theorem askpass_gated_on_config:
  "NewUnstartedServer ''JJUI'' \<in> set (effects (run w)) \<and>
   (\<not> Ssh_HijackAskpass (Current (run w)) \<longrightarrow>
      StartListening \<notin> set (effects (run w)) \<and> GoServe \<notin> set (effects (run w)))"
proof (intro conjI impI)
  show "NewUnstartedServer ''JJUI'' \<in> set (effects (run w))"
    by (simp add: run_def emit_def)
next
  assume off: "\<not> Ssh_HijackAskpass (Current (run w))"
  have gate: "e \<notin> set (effects (run w))" if e: "e = StartListening \<or> e = GoServe" for e
  proof
    assume mem: "e \<in> set (effects (run w))"
    from e have rel: "relay_effect e"
      by (auto simp: relay_effect_def)
    from mem rel obtain cfg appContext pre post where
      d: "\<not> list_ex relay_effect pre" "\<not> list_ex relay_effect post"
         "effects (run w) = pre @ effects (run_askpass w cfg appContext) @ post"
         "Current (run w) = Current (run_askpass w cfg appContext)"
      by (rule run_decompose)
    from mem d(1-3) rel have "e \<in> set (effects (run_askpass w cfg appContext))"
      by (auto dest: quiet_set)
    with e have "Ssh_HijackAskpass cfg"
      using askpass_gate by blast
    with off d(4) show False
      by (simp add: askpass_Current)
  qed
  then show "StartListening \<notin> set (effects (run w))" by simp
  from gate show "GoServe \<notin> set (effects (run w))" by simp
qed

theorem askpass_gated_on_config_witness:
  "\<not> Ssh_HijackAskpass (Current (run primary_world)) \<and>
   NewUnstartedServer ''JJUI'' \<in> set (effects (run primary_world)) \<and>
   StartListening \<notin> set (effects (run primary_world)) \<and>
   GoServe \<notin> set (effects (run primary_world)) \<and>
   ProgramRun \<in> set (effects (run primary_world))"
proof -
  have off: "\<not> Ssh_HijackAskpass (Current (run primary_world))"
    by code_simp
  have ui: "ProgramRun \<in> set (effects (run primary_world))"
    by code_simp
  from askpass_gated_on_config [of primary_world] off ui show ?thesis
    by blast
qed

subsection \<open>A relay that cannot bind its address\<close>

text \<open>
  Claim C2, as the code has it. In a run that calls \<^verbatim>\<open>StartListening\<close> and gets an
  error, \<^verbatim>\<open>run\<close> writes \<^verbatim>\<open>Error: ssh.hijack_askpass: <err>\<close> to standard error and
  returns the exit status 1; \<^verbatim>\<open>Serve\<close> is not started and the UI program is not run.
\<close>

theorem bind_error_stops_run:
  assumes "StartListening \<in> set (effects (run w))" and "start_listening w = Some err"
  shows "status (run w) = 1 \<and>
         Stderr (''Error: ssh.hijack_askpass: '' @ err @ ''\<newline>'') \<in> set (effects (run w)) \<and>
         GoServe \<notin> set (effects (run w)) \<and> ProgramRun \<notin> set (effects (run w))"
proof -
  have "relay_effect StartListening"
    by (simp add: relay_effect_def)
  with assms(1) obtain cfg appContext pre post where
    d: "\<not> list_ex relay_effect pre" "\<not> list_ex relay_effect post"
       "effects (run w) = pre @ effects (run_askpass w cfg appContext) @ post"
       "status (run w) = status (run_askpass w cfg appContext)"
    by (rule run_decompose)
  from assms(1) d(1-3) have "StartListening \<in> set (effects (run_askpass w cfg appContext))"
    by (auto dest: quiet_set simp: relay_effect_def)
  from this assms(2) have a: "run_askpass w cfg appContext =
     \<lparr>effects = [NewProgram appContext, StartListening,
                  Stderr (''Error: ssh.hijack_askpass: '' @ err @ ''\<newline>'')],
      status = 1, Current = cfg\<rparr>"
    by (rule askpass_bind_error)
  have "GoServe \<notin> set pre" "GoServe \<notin> set post" "ProgramRun \<notin> set pre" "ProgramRun \<notin> set post"
    using d(1,2) by (auto dest: quiet_set simp: relay_effect_def)
  with d(3,4) a show ?thesis
    by simp
qed

theorem bind_error_stops_run_witness:
  "StartListening \<in> set (effects (run bind_error_world)) \<and>
   start_listening bind_error_world = Some ''bind: address already in use'' \<and>
   status (run bind_error_world) = 1 \<and>
   Stderr ''Error: ssh.hijack_askpass: bind: address already in use\<newline>''
     \<in> set (effects (run bind_error_world)) \<and>
   GoServe \<notin> set (effects (run bind_error_world)) \<and>
   ProgramRun \<notin> set (effects (run bind_error_world))"
proof -
  have a: "StartListening \<in> set (effects (run bind_error_world))"
    by code_simp
  have b: "start_listening bind_error_world = Some ''bind: address already in use''"
    by (simp add: bind_error_world_def)
  from bind_error_stops_run [OF a b] a b show ?thesis
    by simp
qed

text \<open>
  The claim as the specification words it fails: with the relay turned on and its
  address taken, the run ends with status 1 after the error message, and the UI event
  loop is never started.
\<close>

theorem bind_error_counterexample:
  "start_listening bind_error_world = Some ''bind: address already in use'' \<and>
   effects (run bind_error_world) =
     [NewUnstartedServer ''JJUI'', IsSubprocess, FlagParse, Getwd,
      JJRoot ''/home/user/repo'', Getenv ''DEBUG'', LogSetOutput Discard,
      NewAppContext ''/home/user/repo'', LoadConfigFile,
      ConfigLoad ''[ssh]\<newline>hijack_askpass = true\<newline>'',
      DeprecatedConfigWarnings ''[ssh]\<newline>hijack_askpass = true\<newline>'', InitVM,
      LoadLuaConfigFile, HasDarkBackground, LoadEmbeddedTheme ''default_dark'',
      HasDarkBackground, PaletteUpdate [], PaletteUpdate [], PaletteUpdate [],
      NewProgram
        \<lparr>Location = ''/home/user/repo'', JJConfig_Revsets_Log = ''present(@)'',
         JJConfig_Colors = [], DefaultRevset = ''present(@)'',
         CurrentRevset = ''present(@)''\<rparr>,
      StartListening,
      Stderr ''Error: ssh.hijack_askpass: bind: address already in use\<newline>'',
      CloseVM, HistoriesFlush] \<and>
   ProgramRun \<notin> set (effects (run bind_error_world)) \<and>
   status (run bind_error_world) = 1"
  by code_simp

end
